theory Spec2Isabelle
  imports Main "HOL-Library.Word"
begin

section \<open>Values\<close>

text \<open>
  A JavaScript string is a sequence of UTF-16 code units. \<open>js\<close> writes an ASCII
  literal of the source as such a sequence; the log messages of the source, which are
  Korean, are written out by their code units.
\<close>

type_synonym jsstring = "16 word list"

definition js :: "string \<Rightarrow> jsstring" where
  "js s = map (\<lambda>c. of_nat (of_char c)) s"

text \<open>
  JSON values as they travel through the client. Numbers are never computed with, only
  carried, so their type stays a parameter.
\<close>

datatype 'n json =
    JNull
  | JBool bool
  | JNumber 'n
  | JString jsstring
  | JArray "'n json list"
  | JObject "(jsstring \<times> 'n json) list"

text \<open>An element of \<^verbatim>\<open>Array<{lat: number, lng: number}>\<close> and the value it is.\<close>

datatype 'n location = Location 'n 'n

fun location_value :: "'n location \<Rightarrow> 'n json" where
  "location_value (Location la lo) =
     JObject [(js ''lat'', JNumber la), (js ''lng'', JNumber lo)]"

section \<open>Requests, responses, errors\<close>

datatype http_method = GET | POST | PUT | DELETE

text \<open>The configuration given to \<^verbatim>\<open>axios.create\<close>.\<close>

record instance_config =
  baseURL :: jsstring
  timeout :: nat
  headers :: "jsstring \<rightharpoonup> jsstring"

text \<open>
  The configuration of one request: the instance's configuration together with what the
  call gives (\<^verbatim>\<open>api.get(url, {params})\<close>, \<^verbatim>\<open>api.post(url, data)\<close>). The second
  argument of \<^verbatim>\<open>post\<close> and \<^verbatim>\<open>put\<close> is the request's \<open>body\<close>. An optional argument
  that is left out is \<open>None\<close>.
\<close>

record 'n request_config = instance_config +
  "method" :: http_method
  url :: jsstring
  params :: "'n json option"
  body :: "'n json option"

record 'n response =
  status :: int
  data :: "'n json"

text \<open>
  What a request is rejected with: an object whose \<^verbatim>\<open>response\<close> is there when the server
  answered, and is undefined for a network failure or a timeout.
\<close>

record 'n axios_error =
  message :: jsstring
  response :: "'n response option"

section \<open>The world outside: storage, console, network\<close>

text \<open>
  The calls that change or show something outside the program, in the order they are
  made: a request handed to the transport, \<^verbatim>\<open>localStorage.removeItem\<close>,
  \<^verbatim>\<open>console.error\<close>.
\<close>

datatype 'n effect =
    Request "'n request_config"
  | RemoveItem jsstring
  | ConsoleError jsstring "'n axios_error"

record 'n world =
  localStorage :: "jsstring \<rightharpoonup> jsstring"
  trace :: "'n effect list"

definition getItem :: "jsstring \<Rightarrow> 'n world \<Rightarrow> jsstring option" where
  "getItem key w = localStorage w key"

definition removeItem :: "jsstring \<Rightarrow> 'n world \<Rightarrow> 'n world" where
  "removeItem key w =
     w\<lparr>localStorage := (localStorage w)(key := None), trace := trace w @ [RemoveItem key]\<rparr>"

definition console_error :: "jsstring \<Rightarrow> 'n axios_error \<Rightarrow> 'n world \<Rightarrow> 'n world" where
  "console_error msg error w = w\<lparr>trace := trace w @ [ConsoleError msg error]\<rparr>"

fun request_of_effect :: "'n effect \<Rightarrow> 'n request_config list" where
  "request_of_effect (Request config) = [config]"
| "request_of_effect (RemoveItem key) = []"
| "request_of_effect (ConsoleError msg error) = []"

fun removal_of_effect :: "'n effect \<Rightarrow> jsstring list" where
  "removal_of_effect (Request config) = []"
| "removal_of_effect (RemoveItem key) = [key]"
| "removal_of_effect (ConsoleError msg error) = []"

fun log_of_effect :: "'n effect \<Rightarrow> (jsstring \<times> 'n axios_error) list" where
  "log_of_effect (Request config) = []"
| "log_of_effect (RemoveItem key) = []"
| "log_of_effect (ConsoleError msg error) = [(msg, error)]"

text \<open>The requests sent, the keys removed and the lines logged so far.\<close>

definition requests :: "'n world \<Rightarrow> 'n request_config list" where
  "requests w = concat (map request_of_effect (trace w))"

definition removals :: "'n world \<Rightarrow> jsstring list" where
  "removals w = concat (map removal_of_effect (trace w))"

definition console :: "'n world \<Rightarrow> (jsstring \<times> 'n axios_error) list" where
  "console w = concat (map log_of_effect (trace w))"

section \<open>The client instance and its interceptors\<close>

definition BASE_URL :: jsstring where
  "BASE_URL = js ''/api''"

definition api :: instance_config where
  "api = \<lparr>baseURL = BASE_URL, timeout = 10000,
          headers = [js ''Content-Type'' \<mapsto> js ''application/json'']\<rparr>"

text \<open>
  The request interceptor. \<^verbatim>\<open>getItem\<close> gives a string or null; \<^verbatim>\<open>if (token)\<close> holds
  for a string that is not empty.
\<close>

definition request_fulfilled :: "'n request_config \<Rightarrow> 'n world \<Rightarrow> 'n request_config" where
  "request_fulfilled config w =
     (case getItem (js ''token'') w of
        None \<Rightarrow> config
      | Some token \<Rightarrow>
          if token \<noteq> []
          then config\<lparr>headers := (headers config)(js ''Authorization'' \<mapsto> js ''Bearer '' @ token)\<rparr>
          else config)"

definition request_rejected :: "'e \<Rightarrow> 'e + 'a" where
  "request_rejected error = Inl error"

text \<open>
  The response interceptor. \<^verbatim>\<open>error.response?.status\<close> is undefined when there is no
  response, and undefined is not \<^verbatim>\<open>401\<close>.
\<close>

definition response_fulfilled :: "'n response \<Rightarrow> 'n response" where
  "response_fulfilled response' = response'"

definition response_rejected ::
  "'n axios_error \<Rightarrow> 'n world \<Rightarrow> ('n axios_error + 'n response) \<times> 'n world" where
  "response_rejected error w =
     (let w1 = (if map_option status (response error) = Some 401
                then removeItem (js ''token'') w else w)
      in (Inl error, w1))"

subsection \<open>A request through the instance\<close>

text \<open>
  The HTTP library is not part of the program. What is taken from it: a call on the
  instance makes one request, configured by the instance's configuration and the call's
  own arguments; the request interceptor sees that configuration before the request is
  sent; the outcome goes through the response interceptor, a response through its first
  handler and an error through its second. What the transport answers to a request is a
  parameter, \<open>adapter\<close>: an error or a response.
\<close>

type_synonym 'n adapter = "'n request_config \<Rightarrow> 'n axios_error + 'n response"

definition instance_request ::
  "instance_config \<Rightarrow> http_method \<Rightarrow> jsstring \<Rightarrow> 'n json option \<Rightarrow> 'n json option
     \<Rightarrow> 'n request_config" where
  "instance_request inst m url' params' data' =
     \<lparr>baseURL = baseURL inst, timeout = timeout inst, headers = headers inst,
      method = m, url = url', params = params', body = data'\<rparr>"

definition api_request ::
  "'n adapter \<Rightarrow> 'n request_config \<Rightarrow> 'n world \<Rightarrow> ('n axios_error + 'n response) \<times> 'n world" where
  "api_request adapter config w =
     (let config1 = request_fulfilled config w;
          w1 = w\<lparr>trace := trace w @ [Request config1]\<rparr>
      in case adapter config1 of
           Inr response' \<Rightarrow> (Inr (response_fulfilled response'), w1)
         | Inl error \<Rightarrow> response_rejected error w1)"

definition api_get ::
  "'n adapter \<Rightarrow> jsstring \<Rightarrow> 'n json option \<Rightarrow> 'n world
     \<Rightarrow> ('n axios_error + 'n response) \<times> 'n world" where
  "api_get adapter url' params' w =
     api_request adapter (instance_request api GET url' params' None) w"

definition api_post ::
  "'n adapter \<Rightarrow> jsstring \<Rightarrow> 'n json option \<Rightarrow> 'n world
     \<Rightarrow> ('n axios_error + 'n response) \<times> 'n world" where
  "api_post adapter url' data' w =
     api_request adapter (instance_request api POST url' None data') w"

definition api_put ::
  "'n adapter \<Rightarrow> jsstring \<Rightarrow> 'n json option \<Rightarrow> 'n world
     \<Rightarrow> ('n axios_error + 'n response) \<times> 'n world" where
  "api_put adapter url' data' w =
     api_request adapter (instance_request api PUT url' None data') w"

definition api_delete ::
  "'n adapter \<Rightarrow> jsstring \<Rightarrow> 'n world \<Rightarrow> ('n axios_error + 'n response) \<times> 'n world" where
  "api_delete adapter url' w =
     api_request adapter (instance_request api DELETE url' None None) w"

section \<open>The operations of \<^verbatim>\<open>apiClient\<close>\<close>

text \<open>
  An asynchronous operation is a function from the world before the call to its settled
  result and the world after: \<open>Inr\<close> the value the promise is fulfilled with, \<open>Inl\<close>
  the error it is rejected with. \<^verbatim>\<open>try\<close>/\<^verbatim>\<open>catch\<close> is the case distinction on the
  awaited result.

  The messages given to \<^verbatim>\<open>console.error\<close> are Korean; each Hangul syllable is one
  code unit. They all end in the two syllables \<open>0xC2E4 0xD328\<close> and a colon; the four
  plain operations start with the method's name, a space and \<open>0xC694 0xCCAD\<close>.
\<close>

definition get ::
  "'n adapter \<Rightarrow> jsstring \<Rightarrow> 'n json option \<Rightarrow> 'n world \<Rightarrow> ('n axios_error + 'n json) \<times> 'n world" where
  "get adapter url' params' w =
     (case api_get adapter url' params' w of
        (Inr response', w1) \<Rightarrow> (Inr (data response'), w1)
      | (Inl error, w1) \<Rightarrow>
          (Inl error,
           console_error (js ''GET '' @ [0xC694, 0xCCAD] @ js '' '' @ [0xC2E4, 0xD328] @ js '':'')
             error w1))"

definition post ::
  "'n adapter \<Rightarrow> jsstring \<Rightarrow> 'n json option \<Rightarrow> 'n world \<Rightarrow> ('n axios_error + 'n json) \<times> 'n world" where
  "post adapter url' data' w =
     (case api_post adapter url' data' w of
        (Inr response', w1) \<Rightarrow> (Inr (data response'), w1)
      | (Inl error, w1) \<Rightarrow>
          (Inl error,
           console_error (js ''POST '' @ [0xC694, 0xCCAD] @ js '' '' @ [0xC2E4, 0xD328] @ js '':'')
             error w1))"

definition put ::
  "'n adapter \<Rightarrow> jsstring \<Rightarrow> 'n json option \<Rightarrow> 'n world \<Rightarrow> ('n axios_error + 'n json) \<times> 'n world" where
  "put adapter url' data' w =
     (case api_put adapter url' data' w of
        (Inr response', w1) \<Rightarrow> (Inr (data response'), w1)
      | (Inl error, w1) \<Rightarrow>
          (Inl error,
           console_error (js ''PUT '' @ [0xC694, 0xCCAD] @ js '' '' @ [0xC2E4, 0xD328] @ js '':'')
             error w1))"

definition delete ::
  "'n adapter \<Rightarrow> jsstring \<Rightarrow> 'n world \<Rightarrow> ('n axios_error + 'n json) \<times> 'n world" where
  "delete adapter url' w =
     (case api_delete adapter url' w of
        (Inr response', w1) \<Rightarrow> (Inr (data response'), w1)
      | (Inl error, w1) \<Rightarrow>
          (Inl error,
           console_error (js ''DELETE '' @ [0xC694, 0xCCAD] @ js '' '' @ [0xC2E4, 0xD328] @ js '':'')
             error w1))"

definition searchAddress ::
  "'n adapter \<Rightarrow> jsstring \<Rightarrow> 'n world \<Rightarrow> ('n axios_error + 'n json) \<times> 'n world" where
  "searchAddress adapter query w =
     (case api_get adapter (js ''/naver-maps/search'')
             (Some (JObject [(js ''query'', JString query)])) w of
        (Inr response', w1) \<Rightarrow> (Inr (data response'), w1)
      | (Inl error, w1) \<Rightarrow>
          (Inl error,
           console_error
             ([0xC8FC, 0xC18C] @ js '' '' @ [0xAC80, 0xC0C9] @ js '' '' @ [0xC2E4, 0xD328] @ js '':'')
             error w1))"

definition findNearbyStations ::
  "'n adapter \<Rightarrow> 'n \<Rightarrow> 'n \<Rightarrow> 'n world \<Rightarrow> ('n axios_error + 'n json) \<times> 'n world" where
  "findNearbyStations adapter lat lng w =
     (case api_get adapter (js ''/naver-maps/nearby-stations'')
             (Some (JObject [(js ''lat'', JNumber lat), (js ''lng'', JNumber lng)])) w of
        (Inr response', w1) \<Rightarrow> (Inr (data response'), w1)
      | (Inl error, w1) \<Rightarrow>
          (Inl error,
           console_error
             ([0xC9C0, 0xD558, 0xCCA0, 0xC5ED] @ js '' '' @ [0xAC80, 0xC0C9] @ js '' ''
                @ [0xC2E4, 0xD328] @ js '':'')
             error w1))"

definition calculateCenterPoint ::
  "'n adapter \<Rightarrow> 'n location list \<Rightarrow> 'n world \<Rightarrow> ('n axios_error + 'n json) \<times> 'n world" where
  "calculateCenterPoint adapter locations w =
     (case api_post adapter (js ''/naver-maps/center-point'')
             (Some (JArray (map location_value locations))) w of
        (Inr response', w1) \<Rightarrow> (Inr (data response'), w1)
      | (Inl error, w1) \<Rightarrow>
          (Inl error,
           console_error
             ([0xC911, 0xC2EC, 0xC810] @ js '' '' @ [0xACC4, 0xC0B0] @ js '' ''
                @ [0xC2E4, 0xD328] @ js '':'')
             error w1))"

definition reverseGeocode ::
  "'n adapter \<Rightarrow> 'n \<Rightarrow> 'n \<Rightarrow> 'n world \<Rightarrow> ('n axios_error + 'n json) \<times> 'n world" where
  "reverseGeocode adapter lat lng w =
     (case api_get adapter (js ''/naver-maps/reverse-geocode'')
             (Some (JObject [(js ''lat'', JNumber lat), (js ''lng'', JNumber lng)])) w of
        (Inr response', w1) \<Rightarrow> (Inr (data response'), w1)
      | (Inl error, w1) \<Rightarrow>
          (Inl error,
           console_error
             ([0xB9AC, 0xBC84, 0xC2A4] @ js '' '' @ [0xC9C0, 0xC624, 0xCF54, 0xB529] @ js '' ''
                @ [0xC2E4, 0xD328] @ js '':'')
             error w1))"

text \<open>The object \<^verbatim>\<open>apiClient\<close>: a call names one of its members and gives the arguments.\<close>

datatype 'n call =
    Get jsstring "'n json option"
  | Post jsstring "'n json option"
  | Put jsstring "'n json option"
  | Delete jsstring
  | SearchAddress jsstring
  | FindNearbyStations 'n 'n
  | CalculateCenterPoint "'n location list"
  | ReverseGeocode 'n 'n

fun apiClient ::
  "'n adapter \<Rightarrow> 'n call \<Rightarrow> 'n world \<Rightarrow> ('n axios_error + 'n json) \<times> 'n world" where
  "apiClient adapter (Get url' params') w = get adapter url' params' w"
| "apiClient adapter (Post url' data') w = post adapter url' data' w"
| "apiClient adapter (Put url' data') w = put adapter url' data' w"
| "apiClient adapter (Delete url') w = delete adapter url' w"
| "apiClient adapter (SearchAddress query) w = searchAddress adapter query w"
| "apiClient adapter (FindNearbyStations lat lng) w = findNearbyStations adapter lat lng w"
| "apiClient adapter (CalculateCenterPoint locations) w = calculateCenterPoint adapter locations w"
| "apiClient adapter (ReverseGeocode lat lng) w = reverseGeocode adapter lat lng w"

text \<open>
  For stating what every operation does: the request a call asks the instance for, and
  the message it logs when the request fails. That the operations agree with both is
  proved below (\<open>apiClient_run\<close>), not assumed.
\<close>

fun request_of :: "'n call \<Rightarrow> 'n request_config" where
  "request_of (Get url' params') = instance_request api GET url' params' None"
| "request_of (Post url' data') = instance_request api POST url' None data'"
| "request_of (Put url' data') = instance_request api PUT url' None data'"
| "request_of (Delete url') = instance_request api DELETE url' None None"
| "request_of (SearchAddress query) =
     instance_request api GET (js ''/naver-maps/search'')
       (Some (JObject [(js ''query'', JString query)])) None"
| "request_of (FindNearbyStations lat lng) =
     instance_request api GET (js ''/naver-maps/nearby-stations'')
       (Some (JObject [(js ''lat'', JNumber lat), (js ''lng'', JNumber lng)])) None"
| "request_of (CalculateCenterPoint locations) =
     instance_request api POST (js ''/naver-maps/center-point'') None
       (Some (JArray (map location_value locations)))"
| "request_of (ReverseGeocode lat lng) =
     instance_request api GET (js ''/naver-maps/reverse-geocode'')
       (Some (JObject [(js ''lat'', JNumber lat), (js ''lng'', JNumber lng)])) None"

definition failed :: jsstring where
  "failed = [0xC2E4, 0xD328] @ js '':''"

fun failure_message :: "'n call \<Rightarrow> jsstring" where
  "failure_message (Get url' params') = js ''GET '' @ [0xC694, 0xCCAD] @ js '' '' @ failed"
| "failure_message (Post url' data') = js ''POST '' @ [0xC694, 0xCCAD] @ js '' '' @ failed"
| "failure_message (Put url' data') = js ''PUT '' @ [0xC694, 0xCCAD] @ js '' '' @ failed"
| "failure_message (Delete url') = js ''DELETE '' @ [0xC694, 0xCCAD] @ js '' '' @ failed"
| "failure_message (SearchAddress query) =
     [0xC8FC, 0xC18C] @ js '' '' @ [0xAC80, 0xC0C9] @ js '' '' @ failed"
| "failure_message (FindNearbyStations lat lng) =
     [0xC9C0, 0xD558, 0xCCA0, 0xC5ED] @ js '' '' @ [0xAC80, 0xC0C9] @ js '' '' @ failed"
| "failure_message (CalculateCenterPoint locations) =
     [0xC911, 0xC2EC, 0xC810] @ js '' '' @ [0xACC4, 0xC0B0] @ js '' '' @ failed"
| "failure_message (ReverseGeocode lat lng) =
     [0xB9AC, 0xBC84, 0xC2A4] @ js '' '' @ [0xC9C0, 0xC624, 0xCF54, 0xB529] @ js '' '' @ failed"

section \<open>The router\<close>

text \<open>
  The view tree \<^verbatim>\<open>Router\<close> returns. \<open>Home\<close> is the page component, which lies outside
  this development.
\<close>

datatype element =
    Home
  | Fragment "element list"
  | Routes "element list"
  | Route jsstring element

definition Router :: element where
  "Router = Fragment [Routes [Route (js ''/'') Home]]"

text \<open>
  The routing library is not part of the program either. What is taken from it: the
  routes of a tree are its \<open>Route\<close> elements, each a path pattern with the element it
  renders; at a location, the element of the first route whose pattern matches is
  rendered, and nothing when none matches. When a pattern matches a location is a
  parameter.
\<close>

fun routes_of :: "element \<Rightarrow> (jsstring \<times> element) list" where
  "routes_of Home = []"
| "routes_of (Fragment children) = concat (map routes_of children)"
| "routes_of (Routes children) = concat (map routes_of children)"
| "routes_of (Route path' element') = [(path', element')]"

definition render_at ::
  "(jsstring \<Rightarrow> jsstring \<Rightarrow> bool) \<Rightarrow> jsstring \<Rightarrow> element \<Rightarrow> element option" where
  "render_at matches pathname tree =
     map_option snd (find (\<lambda>r. matches (fst r) pathname) (routes_of tree))"

section \<open>The URL of a request\<close>

text \<open>
  The HTTP library writes the URL of a request from its base path, its path and its
  query parameters. Of that, only the following is taken, and \<open>None\<close> stands for
  everything left out. A base path and a path that each start with one slash, do not end
  in one and consist of slashes, ASCII letters, digits and \<^verbatim>\<open>- _ . ~\<close> are put one
  after the other. A single parameter with a string value is written after a question
  mark as key, equals sign, value; in both, the characters just named are kept and a
  space is written as a plus sign.
\<close>

definition plain :: "16 word \<Rightarrow> bool" where
  "plain c \<longleftrightarrow>
     (0x41 \<le> c \<and> c \<le> 0x5A) \<or> (0x61 \<le> c \<and> c \<le> 0x7A) \<or> (0x30 \<le> c \<and> c \<le> 0x39)
     \<or> c = 0x2D \<or> c = 0x5F \<or> c = 0x2E \<or> c = 0x7E"

definition encode :: "jsstring \<Rightarrow> jsstring option" where
  "encode val =
     (if list_all (\<lambda>c. plain c \<or> c = 0x20) val
      then Some (map (\<lambda>c. if c = 0x20 then 0x2B else c) val)
      else None)"

fun serialize :: "'n json \<Rightarrow> jsstring option" where
  "serialize (JObject [(key, JString val)]) =
     (case (encode key, encode val) of
        (Some k, Some v) \<Rightarrow> Some (k @ js ''='' @ v)
      | _ \<Rightarrow> None)"
| "serialize _ = None"

definition path_like :: "jsstring \<Rightarrow> bool" where
  "path_like p \<longleftrightarrow>
     list_all (\<lambda>c. plain c \<or> c = 0x2F) p \<and> take 1 p = js ''/'' \<and> take 2 p \<noteq> js ''//''
     \<and> last p \<noteq> 0x2F"

definition request_uri :: "'n request_config \<Rightarrow> jsstring option" where
  "request_uri config =
     (if path_like (baseURL config) \<and> path_like (url config)
      then (case params config of
              None \<Rightarrow> Some (baseURL config @ url config)
            | Some ps \<Rightarrow>
                map_option (\<lambda>s. baseURL config @ url config @ js ''?'' @ s) (serialize ps))
      else None)"

section \<open>How the operations run\<close>

lemma response_rejected_401:
  "map_option status (response error) = Some 401 \<Longrightarrow>
     response_rejected error w = (Inl error, removeItem (js ''token'') w)"
  by (simp add: response_rejected_def)

lemma response_rejected_other:
  "map_option status (response error) \<noteq> Some 401 \<Longrightarrow> response_rejected error w = (Inl error, w)"
  by (auto simp add: response_rejected_def)

lemma api_request_run:
  "api_request adapter config w =
     (case adapter (request_fulfilled config w) of
        Inr r \<Rightarrow> (Inr r, w\<lparr>trace := trace w @ [Request (request_fulfilled config w)]\<rparr>)
      | Inl e \<Rightarrow> (Inl e, snd (response_rejected e
                    (w\<lparr>trace := trace w @ [Request (request_fulfilled config w)]\<rparr>))))"
  by (simp add: api_request_def response_fulfilled_def response_rejected_def Let_def
           split: sum.splits)

lemma apiClient_run:
  "apiClient adapter c w =
     (case adapter (request_fulfilled (request_of c) w) of
        Inr r \<Rightarrow> (Inr (data r), w\<lparr>trace := trace w @ [Request (request_fulfilled (request_of c) w)]\<rparr>)
      | Inl e \<Rightarrow>
          (Inl e,
           console_error (failure_message c) e
             (snd (response_rejected e
               (w\<lparr>trace := trace w @ [Request (request_fulfilled (request_of c) w)]\<rparr>)))))"
  by (cases c)
     (simp_all add: get_def post_def put_def delete_def searchAddress_def
        findNearbyStations_def calculateCenterPoint_def reverseGeocode_def
        api_get_def api_post_def api_put_def api_delete_def api_request_run failed_def
        split: sum.splits)

lemma apiClient_requests:
  "requests (snd (apiClient adapter c w)) = requests w @ [request_fulfilled (request_of c) w]"
  by (simp add: apiClient_run requests_def console_error_def response_rejected_def
        removeItem_def split: sum.splits)

lemma apiClient_console:
  "console (snd (apiClient adapter c w)) =
     (case adapter (request_fulfilled (request_of c) w) of
        Inr r \<Rightarrow> console w
      | Inl e \<Rightarrow> console w @ [(failure_message c, e)])"
  by (simp add: apiClient_run console_def console_error_def response_rejected_def
        removeItem_def split: sum.splits)

lemma apiClient_result:
  "fst (apiClient adapter c w) =
     (case adapter (request_fulfilled (request_of c) w) of
        Inr r \<Rightarrow> Inr (data r)
      | Inl e \<Rightarrow> Inl e)"
  by (simp add: apiClient_run split: sum.splits)

lemma apiClient_removals:
  "removals (snd (apiClient adapter c w)) =
     (case adapter (request_fulfilled (request_of c) w) of
        Inr r \<Rightarrow> removals w
      | Inl e \<Rightarrow> if map_option status (response e) = Some 401
                 then removals w @ [js ''token''] else removals w)"
  by (auto simp add: apiClient_run removals_def console_error_def response_rejected_def
        removeItem_def split: sum.splits)

lemma apiClient_localStorage:
  "localStorage (snd (apiClient adapter c w)) =
     (case adapter (request_fulfilled (request_of c) w) of
        Inr r \<Rightarrow> localStorage w
      | Inl e \<Rightarrow> if map_option status (response e) = Some 401
                 then (localStorage w)(js ''token'' := None) else localStorage w)"
  by (auto simp add: apiClient_run console_error_def response_rejected_def
        removeItem_def split: sum.splits)

lemma request_of_headers:
  "headers (request_of c) = [js ''Content-Type'' \<mapsto> js ''application/json'']"
  by (cases c) (simp_all add: instance_request_def api_def)

lemma request_of_baseURL: "baseURL (request_of c) = js ''/api''"
  by (cases c) (simp_all add: instance_request_def api_def BASE_URL_def)

lemma request_of_timeout: "timeout (request_of c) = 10000"
  by (cases c) (simp_all add: instance_request_def api_def)

lemma header_names_differ:
  "js ''Authorization'' \<noteq> js ''Content-Type''"
  "js ''Content-Type'' \<noteq> js ''Authorization''"
  by (simp_all add: js_def)

lemma request_fulfilled_fields:
  "baseURL (request_fulfilled config w) = baseURL config"
  "timeout (request_fulfilled config w) = timeout config"
  "method (request_fulfilled config w) = method config"
  "url (request_fulfilled config w) = url config"
  "params (request_fulfilled config w) = params config"
  "body (request_fulfilled config w) = body config"
  by (simp_all add: request_fulfilled_def split: option.splits)

lemma request_fulfilled_headers:
  "headers (request_fulfilled config w) =
     (case localStorage w (js ''token'') of
        None \<Rightarrow> headers config
      | Some token \<Rightarrow>
          if token = [] then headers config
          else (headers config)(js ''Authorization'' \<mapsto> js ''Bearer '' @ token))"
  by (simp add: request_fulfilled_def getItem_def split: option.splits)

lemma encode_query: "encode (js ''query'') = Some (js ''query'')"
  by (simp add: encode_def plain_def js_def)

lemma path_like_api: "path_like (js ''/api'')" "path_like (js ''/naver-maps/search'')"
  by (simp_all add: path_like_def plain_def js_def)

lemma request_uri_search:
  assumes "list_all (\<lambda>c. plain c \<or> c = 0x20) query"
  shows "request_uri (request_fulfilled (request_of (SearchAddress query)) w) =
           Some (js ''/api/naver-maps/search?query='' @ map (\<lambda>c. if c = 0x20 then 0x2B else c) query)"
proof -
  have "encode query = Some (map (\<lambda>c. if c = 0x20 then 0x2B else c) query)"
    using assms by (simp add: encode_def)
  then show ?thesis
    by (simp add: request_uri_def request_fulfilled_fields instance_request_def api_def
        BASE_URL_def path_like_api encode_query)
      (simp add: js_def)
qed

section \<open>The claims\<close>

text \<open>
  Claim C1, as amended. The request interceptor sets \<^verbatim>\<open>Authorization\<close> to
  \<^verbatim>\<open>Bearer <token>\<close> when a token that is not the empty string is stored under
  \<^verbatim>\<open>token\<close>, and changes nothing else of the configuration; when no token is stored, or
  the stored one is the empty string, it returns the configuration as it is, headers
  included. Every operation of the client sends exactly one
  request, the one the interceptor returns, and that request carries
  \<^verbatim>\<open>Authorization: Bearer <token>\<close> in the first case and no \<^verbatim>\<open>Authorization\<close>
  header in the second.
\<close>

theorem request_interceptor_authorization:
  "request_fulfilled config w =
     (case localStorage w (js ''token'') of
        None \<Rightarrow> config
      | Some token \<Rightarrow>
          if token = [] then config
          else config\<lparr>headers := (headers config)(js ''Authorization'' \<mapsto> js ''Bearer '' @ token)\<rparr>)
   \<and> headers (request_fulfilled config w) (js ''Authorization'') =
     (case localStorage w (js ''token'') of
        None \<Rightarrow> headers config (js ''Authorization'')
      | Some token \<Rightarrow>
          if token = [] then headers config (js ''Authorization'')
          else Some (js ''Bearer '' @ token))
   \<and> requests (snd (apiClient adapter c w)) = requests w @ [request_fulfilled (request_of c) w]
   \<and> headers (request_fulfilled (request_of c) w) (js ''Authorization'') =
     (case localStorage w (js ''token'') of
        None \<Rightarrow> None
      | Some token \<Rightarrow> if token = [] then None else Some (js ''Bearer '' @ token))"
proof -
  have "request_fulfilled config w =
     (case localStorage w (js ''token'') of
        None \<Rightarrow> config
      | Some token \<Rightarrow>
          if token = [] then config
          else config\<lparr>headers := (headers config)(js ''Authorization'' \<mapsto> js ''Bearer '' @ token)\<rparr>)"
    by (simp add: request_fulfilled_def getItem_def split: option.splits)
  then show ?thesis
    by (simp add: request_fulfilled_headers request_of_headers header_names_differ
        apiClient_requests split: option.splits)
qed

theorem request_interceptor_authorization_witness:
  "request_fulfilled (request_of (Delete (js ''/x'')))
      (\<lparr>localStorage = [js ''token'' \<mapsto> js ''abc''], trace = []\<rparr> :: int world)
     = \<lparr>baseURL = js ''/api'', timeout = 10000,
        headers = [js ''Content-Type'' \<mapsto> js ''application/json'',
                   js ''Authorization'' \<mapsto> js ''Bearer abc''],
        method = DELETE, url = js ''/x'', params = None, body = None\<rparr>
   \<and> request_fulfilled (request_of (Delete (js ''/x'')))
      (\<lparr>localStorage = Map.empty, trace = []\<rparr> :: int world)
     = request_of (Delete (js ''/x''))
   \<and> headers (request_fulfilled (request_of (Delete (js ''/x'')))
      (\<lparr>localStorage = [js ''token'' \<mapsto> js ''abc''], trace = []\<rparr> :: int world))
     (js ''Authorization'') = Some (js ''Bearer abc'')
   \<and> headers (request_fulfilled (request_of (Delete (js ''/x'')))
      (\<lparr>localStorage = Map.empty, trace = []\<rparr> :: int world))
     (js ''Authorization'') = None"
  using request_interceptor_authorization
      [of "request_of (Delete (js ''/x''))"
          "\<lparr>localStorage = [js ''token'' \<mapsto> js ''abc''], trace = []\<rparr> :: int world"
          "\<lambda>config. Inr \<lparr>status = 200, data = JNull\<rparr>" "Delete (js ''/x'')"]
    request_interceptor_authorization
      [of "request_of (Delete (js ''/x''))"
          "\<lparr>localStorage = Map.empty, trace = []\<rparr> :: int world"
          "\<lambda>config. Inr \<lparr>status = 200, data = JNull\<rparr>" "Delete (js ''/x'')"]
  by (simp add: js_def instance_request_def api_def BASE_URL_def)

text \<open>
  Claim C1 as it was stated fails where the stored token is the empty string: a token
  string is present under the key, and the header is not set to \<^verbatim>\<open>Bearer \<close>
  followed by it.
\<close>

theorem present_token_counterexample:
  "localStorage (\<lparr>localStorage = [js ''token'' \<mapsto> []], trace = []\<rparr> :: int world) (js ''token'')
     = Some []
   \<and> headers (request_fulfilled (request_of (Get (js ''/x'') None))
        (\<lparr>localStorage = [js ''token'' \<mapsto> []], trace = []\<rparr> :: int world))
       (js ''Authorization'') \<noteq> Some (js ''Bearer '' @ [])"
  by (simp add: request_fulfilled_def getItem_def instance_request_def api_def
        header_names_differ)

text \<open>
  Claim C2. For an error whose response has status 401, the response interceptor calls
  \<^verbatim>\<open>removeItem('token')\<close> once, which is its only effect, and rejects with the error
  it was given. An operation whose request fails with such an error is rejected with
  that same error, after exactly one removal, and the token is gone from storage.
\<close>

theorem unauthorized_removes_token_once:
  assumes "response error = Some r" and "status r = 401"
  shows "response_rejected error w =
           (Inl error,
            w\<lparr>localStorage := (localStorage w)(js ''token'' := None),
              trace := trace w @ [RemoveItem (js ''token'')]\<rparr>)
       \<and> removals (snd (response_rejected error w)) = removals w @ [js ''token'']
       \<and> (adapter (request_fulfilled (request_of c) w) = Inl error \<longrightarrow>
            fst (apiClient adapter c w) = Inl error
          \<and> removals (snd (apiClient adapter c w)) = removals w @ [js ''token'']
          \<and> localStorage (snd (apiClient adapter c w)) (js ''token'') = None)"
proof -
  from assms have s: "map_option status (response error) = Some 401"
    by simp
  have "response_rejected error w = (Inl error, removeItem (js ''token'') w)"
    using s by (rule response_rejected_401)
  moreover have "removals (removeItem (js ''token'') w) = removals w @ [js ''token'']"
    by (simp add: removeItem_def removals_def)
  ultimately show ?thesis
    using s by (simp add: removeItem_def apiClient_result apiClient_removals
        apiClient_localStorage)
qed

theorem unauthorized_removes_token_once_witness:
  "response (\<lparr>message = js ''401'', response = Some \<lparr>status = 401, data = JNull\<rparr>\<rparr>
       :: int axios_error) = Some \<lparr>status = 401, data = JNull\<rparr>
   \<and> status (\<lparr>status = 401, data = JNull\<rparr> :: int response) = 401
   \<and> response_rejected
        (\<lparr>message = js ''401'', response = Some \<lparr>status = 401, data = JNull\<rparr>\<rparr>
          :: int axios_error)
        \<lparr>localStorage = [js ''token'' \<mapsto> js ''abc''], trace = []\<rparr>
      = (Inl \<lparr>message = js ''401'', response = Some \<lparr>status = 401, data = JNull\<rparr>\<rparr>,
         \<lparr>localStorage = Map.empty, trace = [RemoveItem (js ''token'')]\<rparr>)
   \<and> fst (apiClient
        (\<lambda>config. Inl \<lparr>message = js ''401'', response = Some \<lparr>status = 401, data = JNull\<rparr>\<rparr>)
        (Get (js ''/me'') None)
        (\<lparr>localStorage = [js ''token'' \<mapsto> js ''abc''], trace = []\<rparr> :: int world))
      = Inl \<lparr>message = js ''401'', response = Some \<lparr>status = 401, data = JNull\<rparr>\<rparr>
   \<and> removals (snd (apiClient
        (\<lambda>config. Inl \<lparr>message = js ''401'', response = Some \<lparr>status = 401, data = JNull\<rparr>\<rparr>)
        (Get (js ''/me'') None)
        (\<lparr>localStorage = [js ''token'' \<mapsto> js ''abc''], trace = []\<rparr> :: int world)))
      = [js ''token'']"
  using unauthorized_removes_token_once
      [where error = "\<lparr>message = js ''401'',
                        response = Some \<lparr>status = 401, data = JNull\<rparr>\<rparr> :: int axios_error"
         and r = "\<lparr>status = 401, data = JNull\<rparr>"
         and w = "\<lparr>localStorage = [js ''token'' \<mapsto> js ''abc''], trace = []\<rparr>"
         and adapter = "\<lambda>config. Inl \<lparr>message = js ''401'',
                        response = Some \<lparr>status = 401, data = JNull\<rparr>\<rparr>"
         and c = "Get (js ''/me'') None"]
  by (simp add: removals_def)

text \<open>
  Claim C3. Every operation of \<^verbatim>\<open>apiClient\<close>, whatever the transport answers to
  its request: on a response the result is the response's \<^verbatim>\<open>data\<close> and nothing is
  logged; on an error the result is that error, as it is, and exactly one line is logged,
  the operation's message with the error.
\<close>

theorem operations_return_body_or_rethrow:
  "fst (apiClient adapter c w) =
     (case adapter (request_fulfilled (request_of c) w) of
        Inr r \<Rightarrow> Inr (data r)
      | Inl e \<Rightarrow> Inl e)
   \<and> console (snd (apiClient adapter c w)) =
     (case adapter (request_fulfilled (request_of c) w) of
        Inr r \<Rightarrow> console w
      | Inl e \<Rightarrow> console w @ [(failure_message c, e)])"
  by (simp add: apiClient_result apiClient_console)

theorem operations_return_body_or_rethrow_witness:
  "fst (apiClient (\<lambda>config. Inr \<lparr>status = 200, data = JString (js ''ok'')\<rparr>)
        (FindNearbyStations 37 127)
        (\<lparr>localStorage = Map.empty, trace = []\<rparr> :: int world))
     = Inr (JString (js ''ok''))
   \<and> console (snd (apiClient (\<lambda>config. Inl \<lparr>message = js ''Network Error'', response = None\<rparr>)
        (FindNearbyStations 37 127)
        (\<lparr>localStorage = Map.empty, trace = []\<rparr> :: int world)))
     = [([0xC9C0, 0xD558, 0xCCA0, 0xC5ED, 0x20, 0xAC80, 0xC0C9, 0x20, 0xC2E4, 0xD328, 0x3A],
         \<lparr>message = js ''Network Error'', response = None\<rparr>)]"
  using operations_return_body_or_rethrow
      [of "\<lambda>config. Inr \<lparr>status = 200, data = JString (js ''ok'')\<rparr>"
          "FindNearbyStations 37 127" "\<lparr>localStorage = Map.empty, trace = []\<rparr> :: int world"]
    operations_return_body_or_rethrow
      [of "\<lambda>config. Inl \<lparr>message = js ''Network Error'', response = None\<rparr>"
          "FindNearbyStations 37 127" "\<lparr>localStorage = Map.empty, trace = []\<rparr> :: int world"]
  by (simp add: console_def failed_def js_def)

text \<open>
  Claim C4. \<^verbatim>\<open>calculateCenterPoint\<close> sends exactly one request: a POST, base path
  \<^verbatim>\<open>/api\<close>, path \<^verbatim>\<open>/naver-maps/center-point\<close>, no query parameters, and as body the
  array of the locations given, in their order. When the transport answers with a
  response, the result is that response's \<^verbatim>\<open>data\<close>, unchanged.
\<close>

theorem calculateCenterPoint_request:
  "(let config = request_fulfilled (request_of (CalculateCenterPoint locations)) w in
      requests (snd (calculateCenterPoint adapter locations w)) = requests w @ [config]
    \<and> method config = POST
    \<and> baseURL config = js ''/api''
    \<and> url config = js ''/naver-maps/center-point''
    \<and> params config = None
    \<and> body config = Some (JArray (map location_value locations))
    \<and> fst (calculateCenterPoint adapter locations w) =
        (case adapter config of Inr r \<Rightarrow> Inr (data r) | Inl e \<Rightarrow> Inl e))"
  using apiClient_requests [of adapter "CalculateCenterPoint locations" w]
    apiClient_result [of adapter "CalculateCenterPoint locations" w]
  by (simp add: Let_def request_fulfilled_fields instance_request_def api_def BASE_URL_def)

theorem calculateCenterPoint_request_witness:
  "requests (snd (calculateCenterPoint
       (\<lambda>config. Inr \<lparr>status = 200,
          data = JObject [(js ''lat'', JNumber 2), (js ''lng'', JNumber 3),
                          (js ''count'', JNumber 2)]\<rparr>)
       [Location 1 2, Location 3 4]
       (\<lparr>localStorage = Map.empty, trace = []\<rparr> :: int world)))
     = [\<lparr>baseURL = js ''/api'', timeout = 10000,
         headers = [js ''Content-Type'' \<mapsto> js ''application/json''],
         method = POST, url = js ''/naver-maps/center-point'', params = None,
         body = Some (JArray [JObject [(js ''lat'', JNumber 1), (js ''lng'', JNumber 2)],
                              JObject [(js ''lat'', JNumber 3), (js ''lng'', JNumber 4)]])\<rparr>]
   \<and> fst (calculateCenterPoint
       (\<lambda>config. Inr \<lparr>status = 200,
          data = JObject [(js ''lat'', JNumber 2), (js ''lng'', JNumber 3),
                          (js ''count'', JNumber 2)]\<rparr>)
       [Location 1 2, Location 3 4]
       (\<lparr>localStorage = Map.empty, trace = []\<rparr> :: int world))
     = Inr (JObject [(js ''lat'', JNumber 2), (js ''lng'', JNumber 3), (js ''count'', JNumber 2)])"
  using calculateCenterPoint_request
      [of "[Location 1 2, Location 3 4]" "\<lparr>localStorage = Map.empty, trace = []\<rparr> :: int world"
          "\<lambda>config. Inr \<lparr>status = 200,
             data = JObject [(js ''lat'', JNumber 2), (js ''lng'', JNumber 3),
                             (js ''count'', JNumber 2)]\<rparr>"]
  by (simp add: Let_def requests_def request_fulfilled_def getItem_def instance_request_def
        api_def BASE_URL_def)

text \<open>
  Claim C5. For an error whose response has a status other than 401, the response
  interceptor changes nothing and rejects with the error it was given. An operation
  whose request fails with such an error is rejected with it, and storage is as before.
\<close>

theorem other_status_leaves_storage:
  assumes "response error = Some r" and "status r \<noteq> 401"
  shows "response_rejected error w = (Inl error, w)
       \<and> (adapter (request_fulfilled (request_of c) w) = Inl error \<longrightarrow>
            fst (apiClient adapter c w) = Inl error
          \<and> localStorage (snd (apiClient adapter c w)) = localStorage w
          \<and> removals (snd (apiClient adapter c w)) = removals w)"
proof -
  from assms have s: "map_option status (response error) \<noteq> Some 401"
    by simp
  have "response_rejected error w = (Inl error, w)"
    using s by (rule response_rejected_other)
  moreover have "fst (apiClient adapter c w) = Inl error
       \<and> localStorage (snd (apiClient adapter c w)) = localStorage w
       \<and> removals (snd (apiClient adapter c w)) = removals w"
    if "adapter (request_fulfilled (request_of c) w) = Inl error"
    using s by (simp only: apiClient_result apiClient_removals apiClient_localStorage
        that sum.case if_not_P simp_thms)
  ultimately show ?thesis
    by blast
qed

theorem other_status_leaves_storage_witness:
  "response (\<lparr>message = js ''500'', response = Some \<lparr>status = 500, data = JNull\<rparr>\<rparr>
       :: int axios_error) = Some \<lparr>status = 500, data = JNull\<rparr>
   \<and> status (\<lparr>status = 500, data = JNull\<rparr> :: int response) \<noteq> 401
   \<and> response_rejected
        (\<lparr>message = js ''500'', response = Some \<lparr>status = 500, data = JNull\<rparr>\<rparr>
          :: int axios_error)
        \<lparr>localStorage = [js ''token'' \<mapsto> js ''abc''], trace = []\<rparr>
      = (Inl \<lparr>message = js ''500'', response = Some \<lparr>status = 500, data = JNull\<rparr>\<rparr>,
         \<lparr>localStorage = [js ''token'' \<mapsto> js ''abc''], trace = []\<rparr>)
   \<and> localStorage (snd (apiClient
        (\<lambda>config. Inl \<lparr>message = js ''500'', response = Some \<lparr>status = 500, data = JNull\<rparr>\<rparr>)
        (Put (js ''/me'') None)
        (\<lparr>localStorage = [js ''token'' \<mapsto> js ''abc''], trace = []\<rparr> :: int world)))
      = [js ''token'' \<mapsto> js ''abc'']"
  using other_status_leaves_storage
      [where error = "\<lparr>message = js ''500'',
                        response = Some \<lparr>status = 500, data = JNull\<rparr>\<rparr> :: int axios_error"
         and r = "\<lparr>status = 500, data = JNull\<rparr>"
         and w = "\<lparr>localStorage = [js ''token'' \<mapsto> js ''abc''], trace = []\<rparr>"
         and adapter = "\<lambda>config. Inl \<lparr>message = js ''500'',
                        response = Some \<lparr>status = 500, data = JNull\<rparr>\<rparr>"
         and c = "Put (js ''/me'') None"]
  by simp

text \<open>
  Claim C6, as amended. \<^verbatim>\<open>searchAddress\<close> sends exactly one request: a GET, base
  path \<^verbatim>\<open>/api\<close>, path \<^verbatim>\<open>/naver-maps/search\<close>, with the one query parameter
  \<^verbatim>\<open>query\<close> whose value is the string given, as it is, and no body. For a query of
  ASCII letters, digits, \<^verbatim>\<open>- _ . ~\<close> and spaces the URL of that request is
  \<^verbatim>\<open>/api/naver-maps/search?query=\<close> followed by the query with a plus sign for
  each space: \<^verbatim>\<open>/api/naver-maps/search?query=seoul+station\<close> for
  \<^verbatim>\<open>seoul station\<close>.
\<close>

theorem searchAddress_request:
  "(let config = request_fulfilled (request_of (SearchAddress query)) w in
      requests (snd (searchAddress adapter query w)) = requests w @ [config]
    \<and> method config = GET
    \<and> baseURL config = js ''/api''
    \<and> url config = js ''/naver-maps/search''
    \<and> params config = Some (JObject [(js ''query'', JString query)])
    \<and> body config = None
    \<and> fst (searchAddress adapter query w) =
        (case adapter config of Inr r \<Rightarrow> Inr (data r) | Inl e \<Rightarrow> Inl e)
    \<and> (list_all (\<lambda>c. plain c \<or> c = 0x20) query \<longrightarrow>
         request_uri config =
           Some (js ''/api/naver-maps/search?query=''
                   @ map (\<lambda>c. if c = 0x20 then 0x2B else c) query)))"
  using apiClient_requests [of adapter "SearchAddress query" w]
    apiClient_result [of adapter "SearchAddress query" w]
    request_uri_search [of query w]
  by (simp add: Let_def request_fulfilled_fields instance_request_def api_def BASE_URL_def)

theorem searchAddress_request_witness:
  "list_all (\<lambda>c. plain c \<or> c = 0x20) (js ''seoul station'')
   \<and> requests (snd (searchAddress (\<lambda>config. Inr \<lparr>status = 200, data = JNull\<rparr>)
       (js ''seoul station'')
       (\<lparr>localStorage = Map.empty, trace = []\<rparr> :: int world)))
     = [\<lparr>baseURL = js ''/api'', timeout = 10000,
         headers = [js ''Content-Type'' \<mapsto> js ''application/json''],
         method = GET, url = js ''/naver-maps/search'',
         params = Some (JObject [(js ''query'', JString (js ''seoul station''))]),
         body = None\<rparr>]
   \<and> map request_uri (requests (snd (searchAddress (\<lambda>config. Inr \<lparr>status = 200, data = JNull\<rparr>)
       (js ''seoul station'')
       (\<lparr>localStorage = Map.empty, trace = []\<rparr> :: int world))))
     = [Some (js ''/api/naver-maps/search?query=seoul+station'')]"
  using searchAddress_request
      [of "js ''seoul station''" "\<lparr>localStorage = Map.empty, trace = []\<rparr> :: int world"
          "\<lambda>config. Inr \<lparr>status = 200, data = JNull\<rparr>"]
  by (simp add: Let_def requests_def request_fulfilled_def getItem_def instance_request_def
        api_def BASE_URL_def plain_def js_def)

text \<open>
  Claim C6 as it was stated fails at its own input: the URL of the request for
  \<^verbatim>\<open>seoul station\<close> has a plus sign for the space, not \<^verbatim>\<open>%20\<close>.
\<close>

theorem searchAddress_url_counterexample:
  "request_uri (request_fulfilled (request_of (SearchAddress (js ''seoul station'')))
        (\<lparr>localStorage = Map.empty, trace = []\<rparr> :: int world))
     = Some (js ''/api/naver-maps/search?query=seoul+station'')
   \<and> request_uri (request_fulfilled (request_of (SearchAddress (js ''seoul station'')))
        (\<lparr>localStorage = Map.empty, trace = []\<rparr> :: int world))
     \<noteq> Some (js ''/api/naver-maps/search?query=seoul%20station'')"
  by (simp add: request_uri_def request_fulfilled_fields instance_request_def api_def
        BASE_URL_def path_like_def encode_def plain_def js_def)

text \<open>
  Claim C7. The instance is configured with base path \<^verbatim>\<open>/api\<close>, a timeout of 10000
  milliseconds and the header \<^verbatim>\<open>Content-Type: application/json\<close>; the request of
  every operation, in every world and for every answer of the transport, has that base
  path, that timeout and that header.
\<close>

theorem client_configuration_fixed:
  "api = \<lparr>baseURL = js ''/api'', timeout = 10000,
           headers = [js ''Content-Type'' \<mapsto> js ''application/json'']\<rparr>
   \<and> (let config = request_fulfilled (request_of c) w in
        requests (snd (apiClient adapter c w)) = requests w @ [config]
      \<and> baseURL config = js ''/api''
      \<and> timeout config = 10000
      \<and> headers config (js ''Content-Type'') = Some (js ''application/json''))"
  by (simp add: Let_def api_def BASE_URL_def apiClient_requests request_fulfilled_fields
        request_of_baseURL request_of_timeout request_fulfilled_headers request_of_headers
        header_names_differ split: option.splits)

text \<open>
  Claim C8. The tree of \<^verbatim>\<open>Router\<close> has exactly one route, with path \<^verbatim>\<open>/\<close> and the
  home page as its element. At a location that the pattern \<^verbatim>\<open>/\<close> matches the home page
  is rendered, and at any other location nothing is; in particular so when matching is
  equality of pattern and location.
\<close>

theorem router_single_route:
  "routes_of Router = [(js ''/'', Home)]
   \<and> render_at matches pathname Router = (if matches (js ''/'') pathname then Some Home else None)
   \<and> render_at (=) pathname Router = (if pathname = js ''/'' then Some Home else None)"
  by (auto simp add: Router_def render_at_def)

text \<open>
  Claim C9. When the stored token is the empty string, the request interceptor returns
  the configuration unchanged, and the one request an operation then sends has no
  \<^verbatim>\<open>Authorization\<close> header.
\<close>

theorem empty_token_treated_as_absent:
  assumes "localStorage w (js ''token'') = Some []"
  shows "request_fulfilled config w = config
       \<and> requests (snd (apiClient adapter c w)) = requests w @ [request_of c]
       \<and> headers (request_of c) (js ''Authorization'') = None"
proof -
  have "request_fulfilled cfg w = cfg" for cfg :: "'a request_config"
    using assms by (simp add: request_fulfilled_def getItem_def)
  then show ?thesis
    by (simp add: apiClient_requests request_of_headers header_names_differ)
qed

theorem empty_token_treated_as_absent_witness:
  "localStorage (\<lparr>localStorage = [js ''token'' \<mapsto> []], trace = []\<rparr> :: int world) (js ''token'')
     = Some []
   \<and> requests (snd (apiClient (\<lambda>config. Inr \<lparr>status = 200, data = JNull\<rparr>)
        (Post (js ''/x'') None)
        (\<lparr>localStorage = [js ''token'' \<mapsto> []], trace = []\<rparr> :: int world)))
      = [\<lparr>baseURL = js ''/api'', timeout = 10000,
          headers = [js ''Content-Type'' \<mapsto> js ''application/json''],
          method = POST, url = js ''/x'', params = None, body = None\<rparr>]"
  using empty_token_treated_as_absent
      [where w = "\<lparr>localStorage = [js ''token'' \<mapsto> []], trace = []\<rparr> :: int world"
         and adapter = "\<lambda>config. Inr \<lparr>status = 200, data = JNull\<rparr>"
         and c = "Post (js ''/x'') None"]
  by (simp add: requests_def instance_request_def api_def BASE_URL_def)

text \<open>
  Claim C10. For an error without a response, the response interceptor changes nothing
  and rejects with the error it was given. An operation whose request fails with such
  an error is rejected with it, and storage is as before.
\<close>

theorem missing_response_leaves_storage:
  assumes "response error = None"
  shows "response_rejected error w = (Inl error, w)
       \<and> (adapter (request_fulfilled (request_of c) w) = Inl error \<longrightarrow>
            fst (apiClient adapter c w) = Inl error
          \<and> localStorage (snd (apiClient adapter c w)) = localStorage w
          \<and> removals (snd (apiClient adapter c w)) = removals w)"
proof -
  from assms have s: "map_option status (response error) \<noteq> Some 401"
    by simp
  have "response_rejected error w = (Inl error, w)"
    using s by (rule response_rejected_other)
  moreover have "fst (apiClient adapter c w) = Inl error
       \<and> localStorage (snd (apiClient adapter c w)) = localStorage w
       \<and> removals (snd (apiClient adapter c w)) = removals w"
    if "adapter (request_fulfilled (request_of c) w) = Inl error"
    using s by (simp only: apiClient_result apiClient_removals apiClient_localStorage
        that sum.case if_not_P simp_thms)
  ultimately show ?thesis
    by blast
qed

theorem missing_response_leaves_storage_witness:
  "response (\<lparr>message = js ''timeout of 10000ms exceeded'', response = None\<rparr>
       :: int axios_error) = None
   \<and> response_rejected
        (\<lparr>message = js ''timeout of 10000ms exceeded'', response = None\<rparr> :: int axios_error)
        \<lparr>localStorage = [js ''token'' \<mapsto> js ''abc''], trace = []\<rparr>
      = (Inl \<lparr>message = js ''timeout of 10000ms exceeded'', response = None\<rparr>,
         \<lparr>localStorage = [js ''token'' \<mapsto> js ''abc''], trace = []\<rparr>)
   \<and> localStorage (snd (apiClient
        (\<lambda>config. Inl \<lparr>message = js ''timeout of 10000ms exceeded'', response = None\<rparr>)
        (ReverseGeocode 37 127)
        (\<lparr>localStorage = [js ''token'' \<mapsto> js ''abc''], trace = []\<rparr> :: int world)))
      = [js ''token'' \<mapsto> js ''abc'']"
  using missing_response_leaves_storage
      [where error = "\<lparr>message = js ''timeout of 10000ms exceeded'',
                        response = None\<rparr> :: int axios_error"
         and w = "\<lparr>localStorage = [js ''token'' \<mapsto> js ''abc''], trace = []\<rparr>"
         and adapter = "\<lambda>config. Inl \<lparr>message = js ''timeout of 10000ms exceeded'',
                        response = None\<rparr>"
         and c = "ReverseGeocode 37 127"]
  by simp

end
